theory Spec2Isabelle
  imports Main
begin

section \<open>Strings\<close>

text \<open>
  A Go \<^verbatim>\<open>string\<close> is a sequence of bytes; it is modelled as a \<^typ>\<open>string\<close>, one
  \<^typ>\<open>char\<close> per byte. The characters that cannot be written inside a literal are named.
\<close>

definition backslash :: char where
  "backslash = CHR 0x5C"

definition backtick :: char where
  "backtick = CHR 0x60"

definition newline :: char where
  "newline = CHR 0x0A"

definition carriageReturn :: char where
  "carriageReturn = CHR 0x0D"

text \<open>\<^verbatim>\<open>strings.HasPrefix(s, prefix)\<close>.\<close>

definition HasPrefix :: "string \<Rightarrow> string \<Rightarrow> bool" where
  "HasPrefix s prefix = (take (length prefix) s = prefix)"

text \<open>\<^verbatim>\<open>strings.Contains(s, substr)\<close>: some suffix of \<open>s\<close> starts with \<open>substr\<close>.\<close>

fun Contains :: "string \<Rightarrow> string \<Rightarrow> bool" where
  "Contains [] substr = (substr = [])"
| "Contains (c # cs) substr = (HasPrefix (c # cs) substr \<or> Contains cs substr)"

text \<open>\<^verbatim>\<open>strings.Index(s, substr)\<close>: the first position of \<open>substr\<close> in \<open>s\<close>, or \<open>-1\<close>.\<close>

fun Index :: "string \<Rightarrow> string \<Rightarrow> int" where
  "Index [] substr = (if substr = [] then 0 else - 1)"
| "Index (c # cs) substr =
     (if HasPrefix (c # cs) substr then 0
      else (let i = Index cs substr in if i = - 1 then - 1 else i + 1))"

text \<open>
  \<^verbatim>\<open>strings.ReplaceAll(s, "`", "")\<close>, the only use of \<^verbatim>\<open>ReplaceAll\<close> in the checker:
  every backtick byte is removed.
\<close>

definition stripBackticks :: "string \<Rightarrow> string" where
  "stripBackticks s = filter (\<lambda>c. c \<noteq> backtick) s"

text \<open>
  \<^verbatim>\<open>strings.ToLower\<close>. The library function has a fast path for strings whose bytes are
  all below \<^verbatim>\<open>utf8.RuneSelf\<close> (0x80), where the bytes \<^verbatim>\<open>'A'..'Z'\<close> are shifted to
  \<^verbatim>\<open>'a'..'z'\<close>; any other string goes through \<^verbatim>\<open>Map(unicode.ToLower, s)\<close>, which
  depends on the Unicode case tables. The tables are not part of the repository: the
  mapping of non-ASCII strings is the parameter \<open>uni\<close>.
\<close>

definition lowerByte :: "char \<Rightarrow> char" where
  "lowerByte c =
     (if (65::nat) \<le> of_char c \<and> of_char c \<le> (90::nat) then char_of (of_char c + (32::nat)) else c)"

definition isASCII :: "string \<Rightarrow> bool" where
  "isASCII s = list_all (\<lambda>c. of_char c < (128::nat)) s"

definition ToLower :: "(string \<Rightarrow> string) \<Rightarrow> string \<Rightarrow> string" where
  "ToLower uni s = (if isASCII s then map lowerByte s else uni s)"

section \<open>Verdicts\<close>

text \<open>
  \<^verbatim>\<open>type PRStatus int\<close> with the constants numbered by \<^verbatim>\<open>iota\<close>. The type stays
  an integer: \<^verbatim>\<open>CheckPR\<close> converts a cached integer to a \<^verbatim>\<open>PRStatus\<close> unchecked.
\<close>

type_synonym PRStatus = int

definition StatusGoodMatch :: PRStatus where
  "StatusGoodMatch = 0"

definition StatusPotentialMismatch :: PRStatus where
  "StatusPotentialMismatch = 1"

definition StatusNotFound :: PRStatus where
  "StatusNotFound = 2"

section \<open>The similarity pipeline\<close>

text \<open>
  \<^verbatim>\<open>OpenAIClient.CheckSimilarity(text1, text2)\<close> is an HTTP call; the client is modelled
  by what the call returns: \<open>Inl\<close> an error message, \<open>Inr\<close> the answer. A \<^verbatim>\<open>nil\<close> client
  (no API key) is \<open>None\<close>.
\<close>

type_synonym OpenAIClient = "string \<Rightarrow> string \<Rightarrow> string + bool"

text \<open>
  The first half of \<^verbatim>\<open>CheckSimilarity\<close> (checker.go, lines 238 to 244): the changelog
  description is stripped of backticks, lower-cased and cut at its first period; the title
  is lower-cased only.
\<close>

definition changelogLower :: "(string \<Rightarrow> string) \<Rightarrow> string \<Rightarrow> string" where
  "changelogLower uni changelogDesc =
     (let l = ToLower uni (stripBackticks changelogDesc);
          idx = Index l ''.''
      in if idx \<noteq> - 1 then take (nat idx) l else l)"

definition prTitleLower :: "(string \<Rightarrow> string) \<Rightarrow> string \<Rightarrow> string" where
  "prTitleLower uni prTitle = ToLower uni prTitle"

text \<open>The condition of the \<^verbatim>\<open>if\<close> on line 246, on the two normalized strings.\<close>

definition substringMatch :: "string \<Rightarrow> string \<Rightarrow> bool" where
  "substringMatch titleL descL = (Contains titleL descL \<or> Contains descL titleL)"

text \<open>The substring stage as \<^verbatim>\<open>CheckSimilarity(changelogDesc, prTitle)\<close> runs it.\<close>

definition substringStage :: "(string \<Rightarrow> string) \<Rightarrow> string \<Rightarrow> string \<Rightarrow> bool" where
  "substringStage uni changelogDesc prTitle =
     substringMatch (prTitleLower uni prTitle) (changelogLower uni changelogDesc)"

text \<open>
  \<^verbatim>\<open>Checker.CheckSimilarity\<close>. Of the checker it reads only \<^verbatim>\<open>openAIClient\<close> (and
  \<^verbatim>\<open>verbose\<close>, for a log line).
\<close>

definition CheckSimilarity ::
  "(string \<Rightarrow> string) \<Rightarrow> OpenAIClient option \<Rightarrow> string \<Rightarrow> string \<Rightarrow> PRStatus" where
  "CheckSimilarity uni openAIClient changelogDesc prTitle =
     (if substringStage uni changelogDesc prTitle then StatusGoodMatch
      else (case openAIClient of
              None \<Rightarrow> StatusPotentialMismatch
            | Some client \<Rightarrow>
                (case client prTitle changelogDesc of
                   Inl err \<Rightarrow> StatusPotentialMismatch
                 | Inr similar \<Rightarrow>
                     if similar then StatusGoodMatch else StatusPotentialMismatch)))"

section \<open>Properties of the similarity pipeline\<close>

lemma HasPrefix_Nil [simp]: "HasPrefix s []"
  by (simp add: HasPrefix_def)

lemma Contains_Nil [simp]: "Contains s []"
  by (cases s) simp_all

lemma substringMatch_sym: "substringMatch x y = substringMatch y x"
  by (auto simp: substringMatch_def)

lemma Index_no_dot: "CHR ''.'' \<notin> set s \<Longrightarrow> Index s ''.'' = - 1"
proof (induction s)
  case Nil
  show ?case by simp
next
  case (Cons c cs)
  then have "\<not> HasPrefix (c # cs) ''.''"
    by (auto simp: HasPrefix_def)
  with Cons show ?case by simp
qed

lemma changelogLower_plain:
  assumes "backtick \<notin> set a" and "CHR ''.'' \<notin> set (ToLower uni a)"
  shows "changelogLower uni a = ToLower uni a"
proof -
  have "stripBackticks a = a"
    using assms(1) by (auto simp: stripBackticks_def filter_id_conv)
  then show ?thesis
    using Index_no_dot [OF assms(2)] by (simp add: changelogLower_def)
qed

text \<open>
  C7, as stated: the substring stage of \<^verbatim>\<open>CheckSimilarity(a, b)\<close> and of
  \<^verbatim>\<open>CheckSimilarity(b, a)\<close> agree for all strings. It fails: with the description
  \<^verbatim>\<open>"."\<close> and the title \<^verbatim>\<open>"x"\<close> the description is cut to the empty string, which every
  title contains; with the two exchanged, neither of \<^verbatim>\<open>"x"\<close> and \<^verbatim>\<open>"."\<close> contains the
  other.
\<close>

theorem substringStage_not_commutative:
  "substringStage id ''.'' ''x'' \<noteq> substringStage id ''x'' ''.''"
  by (simp add: substringStage_def substringMatch_def prTitleLower_def changelogLower_def
      ToLower_def isASCII_def stripBackticks_def backtick_def lowerByte_def HasPrefix_def)

text \<open>
  C7, amended: the substring test is symmetric in the two normalized strings it compares,
  so the substring stage of \<^verbatim>\<open>CheckSimilarity(a, b)\<close> and of \<^verbatim>\<open>CheckSimilarity(b, a)\<close>
  agree whenever neither string contains a backtick nor, once lower-cased, a period, which
  are the strings that the description's normalization treats as it treats a title.
\<close>

theorem substringStage_commutative_plain:
  assumes "backtick \<notin> set a" and "CHR ''.'' \<notin> set (ToLower uni a)"
    and "backtick \<notin> set b" and "CHR ''.'' \<notin> set (ToLower uni b)"
  shows "substringStage uni a b = substringStage uni b a \<and>
         substringMatch x y = substringMatch y x"
proof -
  have "changelogLower uni a = ToLower uni a" "changelogLower uni b = ToLower uni b"
    using assms by (simp_all add: changelogLower_plain)
  then have "substringStage uni a b = substringStage uni b a"
    by (simp add: substringStage_def prTitleLower_def substringMatch_sym [of "ToLower uni b"])
  then show ?thesis
    using substringMatch_sym [of x y] by simp
qed

theorem substringStage_commutative_plain_witness:
  "backtick \<notin> set ''Fix Bug'' \<and> CHR ''.'' \<notin> set (ToLower id ''Fix Bug'') \<and>
   backtick \<notin> set ''fix bug in client'' \<and> CHR ''.'' \<notin> set (ToLower id ''fix bug in client'') \<and>
   substringStage id ''Fix Bug'' ''fix bug in client'' = substringStage id ''fix bug in client'' ''Fix Bug'' \<and>
   substringStage id ''Fix Bug'' ''fix bug in client''"
proof -
  have h: "backtick \<notin> set ''Fix Bug''" "CHR ''.'' \<notin> set (ToLower id ''Fix Bug'')"
    "backtick \<notin> set ''fix bug in client''" "CHR ''.'' \<notin> set (ToLower id ''fix bug in client'')"
    by code_simp+
  have v: "substringStage id ''Fix Bug'' ''fix bug in client''"
    by code_simp
  show ?thesis
    using substringStage_commutative_plain [OF h, of "''a''" "''b''"] h v by simp
qed

text \<open>
  C8: \<^verbatim>\<open>CheckSimilarity\<close> returns \<^verbatim>\<open>StatusGoodMatch\<close> or \<^verbatim>\<open>StatusPotentialMismatch\<close>, never
  \<^verbatim>\<open>StatusNotFound\<close>; and when the substring stage fails and the configured similarity
  client returns an error, the verdict is \<^verbatim>\<open>StatusPotentialMismatch\<close>.
\<close>

theorem CheckSimilarity_verdicts:
  "(CheckSimilarity uni openAIClient changelogDesc prTitle = StatusGoodMatch \<or>
    CheckSimilarity uni openAIClient changelogDesc prTitle = StatusPotentialMismatch) \<and>
   CheckSimilarity uni openAIClient changelogDesc prTitle \<noteq> StatusNotFound \<and>
   (\<not> substringStage uni changelogDesc prTitle \<longrightarrow> openAIClient = Some client \<longrightarrow>
      client prTitle changelogDesc = Inl err \<longrightarrow>
      CheckSimilarity uni openAIClient changelogDesc prTitle = StatusPotentialMismatch)"
  by (simp add: CheckSimilarity_def StatusGoodMatch_def StatusPotentialMismatch_def
      StatusNotFound_def split: option.split sum.split)

theorem CheckSimilarity_verdicts_witness:
  "\<not> substringStage id ''Fix bug'' ''Add new feature'' \<and>
   CheckSimilarity id (Some (\<lambda>t d. Inl ''timeout'')) ''Fix bug'' ''Add new feature''
     = StatusPotentialMismatch"
proof -
  have "\<not> substringStage id ''Fix bug'' ''Add new feature''"
    by code_simp
  then show ?thesis
    using CheckSimilarity_verdicts [of id "Some (\<lambda>t d. Inl ''timeout'')" "''Fix bug''"
      "''Add new feature''" "\<lambda>t d. Inl ''timeout''" "''timeout''"]
    by simp
qed

text \<open>
  C10: a changelog description that normalizes to the empty string (backticks stripped,
  lower-cased, cut at the first period) is a \<^verbatim>\<open>StatusGoodMatch\<close> for every title and
  whatever the similarity client is.
\<close>

theorem CheckSimilarity_empty_description:
  "changelogLower uni changelogDesc = [] \<Longrightarrow>
   CheckSimilarity uni openAIClient changelogDesc prTitle = StatusGoodMatch"
  by (simp add: CheckSimilarity_def substringStage_def substringMatch_def)

theorem CheckSimilarity_empty_description_witness:
  "changelogLower id [backtick, backtick] = [] \<and>
   CheckSimilarity id None [backtick, backtick] ''Add new feature'' = StatusGoodMatch \<and>
   changelogLower id ''.Fix bug'' = [] \<and>
   CheckSimilarity id None ''.Fix bug'' ''Add new feature'' = StatusGoodMatch"
proof -
  have h1: "changelogLower id [backtick, backtick] = []"
    by code_simp
  have h2: "changelogLower id ''.Fix bug'' = []"
    by code_simp
  show ?thesis
    using CheckSimilarity_empty_description [OF h1, of None "''Add new feature''"]
      CheckSimilarity_empty_description [OF h2, of None "''Add new feature''"] h1 h2
    by simp
qed

end
